theory Spec2Isabelle
  imports Complex_Main
begin

section \<open>PIA qBittorrent port helper: the environment\<close>

text \<open>
  The program (\<^verbatim>\<open>app.py\<close>) talks to two things outside itself: the file system (the
  port file) and the qBittorrent WebUI over HTTP (through \<^verbatim>\<open>requests\<close>). Both are
  modelled as an explicit \<open>world\<close> that every operation takes and returns.

  Exceptions are values. Only the classes that the source's \<^verbatim>\<open>except\<close> clauses tell
  apart are distinguished; \<open>OtherException\<close> stands for any other subclass of
  \<^verbatim>\<open>Exception\<close> (\<^verbatim>\<open>PermissionError\<close>, ...).
\<close>

datatype exn = RequestException | ValueError | FileNotFoundError | AttributeError | OtherException

text \<open>
  The value that \<^verbatim>\<open>response.json()\<close> returns. \<open>JNull\<close> is Python's \<^verbatim>\<open>None\<close>, so the
  \<^verbatim>\<open>None\<close> that \<^verbatim>\<open>get_preferences\<close> returns on failure is \<open>JNull\<close> as well. A number
  with a fraction or an exponent is kept as its exact rational value (NaN and the
  infinities are not represented). A parsed object is an association list read with
  \<open>map_of\<close>.
\<close>

datatype jvalue =
    JNull
  | JBool bool
  | JInt int
  | JFloat rat
  | JStr string
  | JArr "jvalue list"
  | JObj "(string \<times> jvalue) list"

text \<open>
  A response as the source reads it: \<^verbatim>\<open>status_code\<close>, \<^verbatim>\<open>text\<close> and the outcome of
  \<^verbatim>\<open>json()\<close>, which is the decoded body or the exception raised on a body that is
  not JSON (\<^verbatim>\<open>requests.exceptions.JSONDecodeError\<close>, a \<^verbatim>\<open>RequestException\<close>, since
  requests 2.27; a plain \<^verbatim>\<open>ValueError\<close> before).
\<close>

record response =
  status_code :: int
  text_body :: string
  json :: "exn + jvalue"

text \<open>A request as the source issues it: method, URL, form data, timeout in seconds.\<close>

datatype request =
    POST string "(string \<times> string) list" nat
  | GET string nat

text \<open>The state of the path the program looks at.\<close>

datatype file_state = Absent | Unreadable exn | Content string

text \<open>
  The world: the file system, the requests sent so far (oldest first), and the
  service, which answers each request from the whole history up to and including it
  (so it may keep sessions, fail for a while and recover, change its port, ...).
  An answer is a response or the exception raised by \<^verbatim>\<open>session.post\<close>/\<^verbatim>\<open>session.get\<close>.
\<close>

record world =
  fs :: "string \<Rightarrow> file_state"
  sent :: "request list"
  server :: "request list \<Rightarrow> exn + response"

definition http :: "request \<Rightarrow> world \<Rightarrow> (exn + response) \<times> world" where
  "http r w = (server w (sent w @ [r]), w\<lparr>sent := sent w @ [r]\<rparr>)"

section \<open>Python primitives used by the source\<close>

text \<open>
  \<^verbatim>\<open>str.strip()\<close>: the characters are read as code points below 256, where Python's
  whitespace is TAB, LF, VT, FF, CR, FS, GS, RS, US, SPACE, NEL and NBSP.
\<close>

definition is_space :: "char \<Rightarrow> bool" where
  "is_space c = (of_char c \<in> set [9, 10, 11, 12, 13, 28, 29, 30, 31, 32, 133, 160 :: nat])"

definition strip :: "string \<Rightarrow> string" where
  "strip s = rev (dropWhile is_space (rev (dropWhile is_space s)))"

definition rstrip_slash :: "string \<Rightarrow> string" where
  "rstrip_slash s = rev (dropWhile (\<lambda>c. c = CHR ''/'') (rev s))"

text \<open>
  \<^verbatim>\<open>int(s)\<close> on a stripped string, base 10: an optional sign, then digits, where single
  underscores may separate digits. \<open>None\<close> is \<^verbatim>\<open>ValueError\<close>. (The interpreter's limit
  on the number of digits is not modelled.)
\<close>

definition digit_val :: "char \<Rightarrow> nat option" where
  "digit_val c =
     (let n = (of_char c :: nat) in if 48 \<le> n \<and> n \<le> 57 then Some (n - 48) else None)"

text \<open>\<open>scan prev acc s\<close>: \<open>prev\<close> says that the previous character was a digit.\<close>

fun scan :: "bool \<Rightarrow> nat \<Rightarrow> string \<Rightarrow> nat option" where
  "scan prev acc [] = (if prev then Some acc else None)"
| "scan prev acc (c # cs) =
     (if c = CHR ''_'' then (if prev then scan False acc cs else None)
      else case digit_val c of
             Some v \<Rightarrow> scan True (10 * acc + v) cs
           | None \<Rightarrow> None)"

definition py_int :: "string \<Rightarrow> int option" where
  "py_int s =
     (case s of
        [] \<Rightarrow> None
      | c # cs \<Rightarrow>
          if c = CHR ''-'' then map_option (\<lambda>n. - int n) (scan False 0 cs)
          else if c = CHR ''+'' then map_option int (scan False 0 cs)
          else map_option int (scan False 0 s))"

text \<open>\<^verbatim>\<open>str(n)\<close> for an integer, as \<^verbatim>\<open>json.dumps\<close> writes it.\<close>

fun str_nat :: "nat \<Rightarrow> string" where
  "str_nat n = (if n < 10 then [char_of (48 + n)] else str_nat (n div 10) @ [char_of (48 + n mod 10)])"

declare str_nat.simps [simp del]

definition str_int :: "int \<Rightarrow> string" where
  "str_int i = (if i < 0 then CHR ''-'' # str_nat (nat (- i)) else str_nat (nat i))"

text \<open>
  The values of the dictionary that \<^verbatim>\<open>set_port\<close> serialises, and \<^verbatim>\<open>json.dumps\<close> on such
  a dictionary with its default separators (keys are plain identifiers, which need no
  escaping).
\<close>

datatype pyval = PyInt int | PyBool bool

fun dumps_val :: "pyval \<Rightarrow> string" where
  "dumps_val (PyInt i) = str_int i"
| "dumps_val (PyBool b) = (if b then ''true'' else ''false'')"

fun dumps_items :: "(string \<times> pyval) list \<Rightarrow> string" where
  "dumps_items [] = []"
| "dumps_items [(k, v)] = [CHR 0x22] @ k @ [CHR 0x22] @ '': '' @ dumps_val v"
| "dumps_items ((k, v) # kvs) =
     [CHR 0x22] @ k @ [CHR 0x22] @ '': '' @ dumps_val v @ '', '' @ dumps_items kvs"

definition json_dumps :: "(string \<times> pyval) list \<Rightarrow> string" where
  "json_dumps d = ''{'' @ dumps_items d @ ''}''"

text \<open>Truthiness (\<^verbatim>\<open>if prefs:\<close>), \<^verbatim>\<open>prefs.get(key)\<close> and \<^verbatim>\<open>value == int\<close>.\<close>

fun truthy :: "jvalue \<Rightarrow> bool" where
  "truthy JNull = False"
| "truthy (JBool b) = b"
| "truthy (JInt i) = (i \<noteq> 0)"
| "truthy (JFloat r) = (r \<noteq> 0)"
| "truthy (JStr s) = (s \<noteq> [])"
| "truthy (JArr xs) = (xs \<noteq> [])"
| "truthy (JObj kvs) = (kvs \<noteq> [])"

fun py_get :: "jvalue \<Rightarrow> string \<Rightarrow> exn + jvalue" where
  "py_get (JObj kvs) k = (case map_of kvs k of Some v \<Rightarrow> Inr v | None \<Rightarrow> Inr JNull)"
| "py_get _ k = Inl AttributeError"

fun py_eq_int :: "jvalue \<Rightarrow> int \<Rightarrow> bool" where
  "py_eq_int (JInt i) n = (i = n)"
| "py_eq_int (JBool b) n = ((if b then 1 else 0) = n)"
| "py_eq_int (JFloat r) n = (r = of_int n)"
| "py_eq_int _ n = False"

section \<open>QBittorrentAPI\<close>

record api =
  host :: string
  username :: string
  password :: string
  disable_auth :: bool
  logged_in :: bool

definition QBittorrentAPI_init :: "string \<Rightarrow> string \<Rightarrow> string \<Rightarrow> bool \<Rightarrow> api" where
  "QBittorrentAPI_init h u p d =
     \<lparr>host = rstrip_slash h, username = u, password = p, disable_auth = d, logged_in = False\<rparr>"

definition login_request :: "api \<Rightarrow> request" where
  "login_request a =
     POST (host a @ ''/api/v2/auth/login'') [(''username'', username a), (''password'', password a)] 10"

text \<open>
  Every method returns its result (or the exception that escapes it), the object's new
  state and the new world. An \<^verbatim>\<open>except requests.exceptions.RequestException\<close> clause
  catches \<open>RequestException\<close> and lets every other exception through.
\<close>

definition login :: "api \<Rightarrow> world \<Rightarrow> (exn + bool) \<times> api \<times> world" where
  "login a w =
     (if disable_auth a then (Inr True, a\<lparr>logged_in := True\<rparr>, w)
      else case http (login_request a) w of
             (Inr resp, w') \<Rightarrow>
               if status_code resp = 200 \<and> text_body resp = ''Ok.''
               then (Inr True, a\<lparr>logged_in := True\<rparr>, w')
               else (Inr False, a, w')
           | (Inl e, w') \<Rightarrow>
               if e = RequestException then (Inr False, a, w') else (Inl e, a, w'))"

text \<open>The guard \<^verbatim>\<open>if not self.logged_in: if not self.login(): return ...\<close> of both operations.\<close>

definition ensure_login :: "api \<Rightarrow> world \<Rightarrow> (exn + bool) \<times> api \<times> world" where
  "ensure_login a w = (if \<not> logged_in a then login a w else (Inr True, a, w))"

definition preferences_request :: "api \<Rightarrow> request" where
  "preferences_request a = GET (host a @ ''/api/v2/app/preferences'') 10"

definition get_preferences :: "api \<Rightarrow> world \<Rightarrow> (exn + jvalue) \<times> api \<times> world" where
  "get_preferences a w =
     (case ensure_login a w of
        (Inl e, a1, w1) \<Rightarrow> (Inl e, a1, w1)
      | (Inr False, a1, w1) \<Rightarrow> (Inr JNull, a1, w1)
      | (Inr True, a1, w1) \<Rightarrow>
          (case http (preferences_request a1) w1 of
             (Inr resp, w2) \<Rightarrow>
               if status_code resp = 200
               then (case json resp of
                       Inr v \<Rightarrow> (Inr v, a1, w2)
                     | Inl e \<Rightarrow>
                         if e = RequestException then (Inr JNull, a1, w2) else (Inl e, a1, w2))
               else (Inr JNull, a1, w2)
           | (Inl e, w2) \<Rightarrow>
               if e = RequestException then (Inr JNull, a1, w2) else (Inl e, a1, w2)))"

definition preferences :: "int \<Rightarrow> (string \<times> pyval) list" where
  "preferences port = [(''listen_port'', PyInt port), (''upnp'', PyBool False), (''random_port'', PyBool False)]"

definition set_port_request :: "api \<Rightarrow> int \<Rightarrow> request" where
  "set_port_request a port =
     POST (host a @ ''/api/v2/app/setPreferences'') [(''json'', json_dumps (preferences port))] 10"

definition set_port :: "api \<Rightarrow> int \<Rightarrow> world \<Rightarrow> (exn + bool) \<times> api \<times> world" where
  "set_port a port w =
     (case ensure_login a w of
        (Inl e, a1, w1) \<Rightarrow> (Inl e, a1, w1)
      | (Inr False, a1, w1) \<Rightarrow> (Inr False, a1, w1)
      | (Inr True, a1, w1) \<Rightarrow>
          (case http (set_port_request a1 port) w1 of
             (Inr resp, w2) \<Rightarrow> (Inr (status_code resp = 200), a1, w2)
           | (Inl e, w2) \<Rightarrow>
               if e = RequestException then (Inr False, a1, w2) else (Inl e, a1, w2)))"

section \<open>PortFileHandler\<close>

text \<open>
  The handler's \<^verbatim>\<open>qb_api\<close> is the one client object that \<^verbatim>\<open>main\<close> also uses; its
  state is threaded next to the handler's own.
\<close>

record handler =
  port_file_path :: string
  last_port :: "int option"

definition PortFileHandler_init :: "string \<Rightarrow> handler" where
  "PortFileHandler_init p = \<lparr>port_file_path = p, last_port = None\<rparr>"

text \<open>
  \<^verbatim>\<open>update_port\<close>: the outer \<^verbatim>\<open>except Exception\<close> swallows whatever the read or
  \<^verbatim>\<open>set_port\<close> raises, so the method always returns.
\<close>

definition update_port :: "handler \<Rightarrow> api \<Rightarrow> world \<Rightarrow> handler \<times> api \<times> world" where
  "update_port h a w =
     (case fs w (port_file_path h) of
        Absent \<Rightarrow> (h, a, w)
      | Unreadable e \<Rightarrow> (h, a, w)
      | Content raw \<Rightarrow>
          (let port_str = strip raw in
           if port_str = [] then (h, a, w)
           else case py_int port_str of
                  None \<Rightarrow> (h, a, w)
                | Some port \<Rightarrow>
                    if Some port = last_port h then (h, a, w)
                    else case set_port a port w of
                           (Inr True, a1, w1) \<Rightarrow> (h\<lparr>last_port := Some port\<rparr>, a1, w1)
                         | (Inr False, a1, w1) \<Rightarrow> (h, a1, w1)
                         | (Inl e, a1, w1) \<Rightarrow> (h, a1, w1)))"

definition on_modified :: "string \<Rightarrow> bool \<Rightarrow> handler \<Rightarrow> api \<Rightarrow> world \<Rightarrow> handler \<times> api \<times> world" where
  "on_modified src_path is_directory h a w =
     (if src_path = port_file_path h \<and> \<not> is_directory then update_port h a w else (h, a, w))"

definition on_created :: "string \<Rightarrow> bool \<Rightarrow> handler \<Rightarrow> api \<Rightarrow> world \<Rightarrow> handler \<times> api \<times> world" where
  "on_created src_path is_directory h a w =
     (if src_path = port_file_path h \<and> \<not> is_directory then update_port h a w else (h, a, w))"

text \<open>The set-port calls among the requests sent: the POSTs to the client's write endpoint.\<close>

definition is_set_port :: "api \<Rightarrow> request \<Rightarrow> bool" where
  "is_set_port a r =
     (case r of
        POST url d t \<Rightarrow> url = host a @ ''/api/v2/app/setPreferences''
      | GET url t \<Rightarrow> False)"

definition set_port_calls :: "api \<Rightarrow> request list \<Rightarrow> request list" where
  "set_port_calls a rs = filter (is_set_port a) rs"

section \<open>main\<close>

text \<open>
  The configuration that \<^verbatim>\<open>main\<close> reads from the environment (the log level and the
  check interval play no part below).
\<close>

record config =
  QB_HOST :: string
  QB_USERNAME :: string
  QB_PASSWORD :: string
  QB_DISABLE_AUTH :: bool
  PORT_FILE :: string

text \<open>
  The initial port check of \<^verbatim>\<open>main\<close> (the \<^verbatim>\<open>if os.path.exists(PORT_FILE)\<close> block). Its
  \<^verbatim>\<open>except (ValueError, FileNotFoundError)\<close> catches these two classes; any other
  exception leaves \<^verbatim>\<open>main\<close>.
\<close>

definition caught_by_main :: "exn \<Rightarrow> bool" where
  "caught_by_main e = (e = ValueError \<or> e = FileNotFoundError)"

definition initial_check :: "string \<Rightarrow> handler \<Rightarrow> api \<Rightarrow> world \<Rightarrow> exn + handler \<times> api \<times> world" where
  "initial_check port_file h a w =
     (case fs w port_file of
        Absent \<Rightarrow> Inr (h, a, w)
      | Unreadable e \<Rightarrow> if caught_by_main e then Inr (h, a, w) else Inl e
      | Content raw \<Rightarrow>
          (let file_port_str = strip raw in
           if file_port_str = [] then Inr (h, a, w)
           else case py_int file_port_str of
                  None \<Rightarrow> Inr (h, a, w)
                | Some file_port \<Rightarrow>
                    (case get_preferences a w of
                       (Inl e, a1, w1) \<Rightarrow> if caught_by_main e then Inr (h, a1, w1) else Inl e
                     | (Inr prefs, a1, w1) \<Rightarrow>
                         if truthy prefs then
                           (case py_get prefs ''listen_port'' of
                              Inl e \<Rightarrow> if caught_by_main e then Inr (h, a1, w1) else Inl e
                            | Inr current_port \<Rightarrow>
                                if py_eq_int current_port file_port
                                then Inr (h\<lparr>last_port := Some file_port\<rparr>, a1, w1)
                                else Inr (update_port h a1 w1))
                         else Inr (update_port h a1 w1))))"

text \<open>
  \<^verbatim>\<open>main\<close> up to the start of the watcher: the process exits with a status, dies with
  an uncaught exception, or goes on with the handler, the client and the world.
\<close>

datatype startup_result = Exited int | Crashed exn | Started handler api world

definition main_startup :: "config \<Rightarrow> world \<Rightarrow> startup_result" where
  "main_startup cfg w =
     (case login (QBittorrentAPI_init (QB_HOST cfg) (QB_USERNAME cfg) (QB_PASSWORD cfg)
                    (QB_DISABLE_AUTH cfg)) w of
        (Inl e, a1, w1) \<Rightarrow> Crashed e
      | (Inr False, a1, w1) \<Rightarrow> Exited 1
      | (Inr True, a1, w1) \<Rightarrow>
          (case initial_check (PORT_FILE cfg) (PortFileHandler_init (PORT_FILE cfg)) a1 w1 of
             Inl e \<Rightarrow> Crashed e
           | Inr (h, a2, w2) \<Rightarrow> Started h a2 w2))"

text \<open>
  One round of the health check in \<^verbatim>\<open>main\<close>'s loop (after the sleep). The debug line
  evaluates \<^verbatim>\<open>prefs.get('listen_port', 'unknown')\<close>, which raises on a value that is
  not a dictionary. An exception ends the loop.
\<close>

definition health_check :: "api \<Rightarrow> world \<Rightarrow> exn + api \<times> world" where
  "health_check a w =
     (case get_preferences a w of
        (Inl e, a1, w1) \<Rightarrow> Inl e
      | (Inr prefs, a1, w1) \<Rightarrow>
          if prefs = JNull then
            (case login (a1\<lparr>logged_in := False\<rparr>) w1 of
               (Inl e, a2, w2) \<Rightarrow> Inl e
             | (Inr ok, a2, w2) \<Rightarrow> Inr (a2, w2))
          else (case py_get prefs ''listen_port'' of
                  Inl e \<Rightarrow> Inl e
                | Inr v \<Rightarrow> Inr (a1, w1)))"

text \<open>
  What can happen once the watcher runs: a file-system event delivered to the handler
  (source path, is-directory flag), a round of the health check, or another process
  rewriting a file. The watcher's thread and the main thread are interleaved at the
  granularity of these operations.
\<close>

datatype event =
    Modified string bool
  | Created string bool
  | Tick
  | FileChange string file_state

fun step :: "event \<Rightarrow> handler \<times> api \<times> world \<Rightarrow> exn + handler \<times> api \<times> world" where
  "step (Modified src is_dir) (h, a, w) = Inr (on_modified src is_dir h a w)"
| "step (Created src is_dir) (h, a, w) = Inr (on_created src is_dir h a w)"
| "step Tick (h, a, w) =
     (case health_check a w of Inl e \<Rightarrow> Inl e | Inr (a', w') \<Rightarrow> Inr (h, a', w'))"
| "step (FileChange p st) (h, a, w) = Inr (h, a, w\<lparr>fs := (fs w)(p := st)\<rparr>)"

fun run :: "event list \<Rightarrow> handler \<times> api \<times> world \<Rightarrow> exn + handler \<times> api \<times> world" where
  "run [] s = Inr s"
| "run (e # es) s = (case step e s of Inl x \<Rightarrow> Inl x | Inr s' \<Rightarrow> run es s')"

section \<open>Concrete environments\<close>

text \<open>
  A service that accepts every login and every write and reports \<open>n\<close> as its
  \<^verbatim>\<open>listen_port\<close>; one that is unreachable; one that answers every request with status 200
  and a page that is not JSON; one that accepts every POST and answers every GET with
  status 500. Then three more: one that accepts every POST and answers every GET with
  status 200 and a body whose decoding raises \<^verbatim>\<open>ValueError\<close> (a body that is not JSON,
  under requests before 2.27); one that accepts every POST and answers every GET with
  status 200 and a JSON array; one that answers every request with status 500 and a body
  whose decoding would raise \<^verbatim>\<open>ValueError\<close>.
\<close>

definition service :: "int \<Rightarrow> request list \<Rightarrow> exn + response" where
  "service n rs =
     (case last rs of
        POST url d t \<Rightarrow> Inr \<lparr>status_code = 200, text_body = ''Ok.'', json = Inl RequestException\<rparr>
      | GET url t \<Rightarrow>
          Inr \<lparr>status_code = 200, text_body = ''{}'',
               json = Inr (JObj [(''listen_port'', JInt n), (''upnp'', JBool True)])\<rparr>)"

definition unreachable :: "request list \<Rightarrow> exn + response" where
  "unreachable rs = Inl RequestException"

definition no_preferences :: "request list \<Rightarrow> exn + response" where
  "no_preferences rs =
     (case last rs of
        POST url d t \<Rightarrow> Inr \<lparr>status_code = 200, text_body = ''Ok.'', json = Inl RequestException\<rparr>
      | GET url t \<Rightarrow> Inr \<lparr>status_code = 500, text_body = [], json = Inl RequestException\<rparr>)"

definition legacy_page :: "request list \<Rightarrow> exn + response" where
  "legacy_page rs =
     (case last rs of
        POST url d t \<Rightarrow> Inr \<lparr>status_code = 200, text_body = ''Ok.'', json = Inl RequestException\<rparr>
      | GET url t \<Rightarrow>
          Inr \<lparr>status_code = 200, text_body = ''<html></html>'', json = Inl ValueError\<rparr>)"

definition array_answer :: "request list \<Rightarrow> exn + response" where
  "array_answer rs =
     (case last rs of
        POST url d t \<Rightarrow> Inr \<lparr>status_code = 200, text_body = ''Ok.'', json = Inl RequestException\<rparr>
      | GET url t \<Rightarrow>
          Inr \<lparr>status_code = 200, text_body = ''[56789]'', json = Inr (JArr [JInt 56789])\<rparr>)"

definition server_error :: "request list \<Rightarrow> exn + response" where
  "server_error rs = Inr \<lparr>status_code = 500, text_body = ''error'', json = Inl ValueError\<rparr>"

definition html_page :: "request list \<Rightarrow> exn + response" where
  "html_page rs = Inr \<lparr>status_code = 200, text_body = ''<html></html>'', json = Inl RequestException\<rparr>"

definition port_dat :: "string \<Rightarrow> string \<Rightarrow> file_state" where
  "port_dat content p = (if p = ''/app/port.dat'' then Content content else Absent)"

definition default_config :: config where
  "default_config =
     \<lparr>QB_HOST = ''http://localhost:8080'', QB_USERNAME = ''admin'', QB_PASSWORD = ''adminadmin'',
      QB_DISABLE_AUTH = False, PORT_FILE = ''/app/port.dat''\<rparr>"

definition client :: "bool \<Rightarrow> api" where
  "client li =
     \<lparr>host = ''http://localhost:8080'', username = ''admin'', password = ''adminadmin'',
      disable_auth = False, logged_in = li\<rparr>"

definition watcher :: "int option \<Rightarrow> handler" where
  "watcher lp = \<lparr>port_file_path = ''/app/port.dat'', last_port = lp\<rparr>"

text \<open>The world with the given content in \<^verbatim>\<open>/app/port.dat\<close>, no request sent yet, and the given service.\<close>

definition boot_world :: "string \<Rightarrow> (request list \<Rightarrow> exn + response) \<Rightarrow> world" where
  "boot_world content srv = \<lparr>fs = port_dat content, sent = [], server = srv\<rparr>"

lemmas env_defs = boot_world_def port_dat_def watcher_def client_def default_config_def
  service_def unreachable_def html_page_def no_preferences_def legacy_page_def
  array_answer_def server_error_def

lemmas py_defs = strip_def is_space_def py_int_def digit_val_def rstrip_slash_def

lemmas api_defs = login_def login_request_def ensure_login_def get_preferences_def
  preferences_request_def set_port_def set_port_request_def http_def

lemmas main_defs = main_startup_def initial_check_def QBittorrentAPI_init_def
  PortFileHandler_init_def caught_by_main_def update_port_def

section \<open>Basic facts about the client\<close>

lemma is_set_port_login [simp]: "\<not> is_set_port a (login_request b)" if "host b = host a"
  using that by (simp add: is_set_port_def login_request_def)

lemma is_set_port_preferences [simp]: "\<not> is_set_port a (preferences_request b)"
  by (simp add: is_set_port_def preferences_request_def)

lemma is_set_port_set_port [simp]: "host b = host a \<Longrightarrow> is_set_port a (set_port_request b port)"
  by (simp add: is_set_port_def set_port_request_def)

lemma login_frame:
  assumes "login a w = (r, a', w')"
  shows "fs w' = fs w" and "server w' = server w" and "host a' = host a"
    and "disable_auth a' = disable_auth a"
    and "set_port_calls a (sent w') = set_port_calls a (sent w)"
    and "r = Inr True \<Longrightarrow> logged_in a'"
    and "r \<noteq> Inr True \<Longrightarrow> a' = a"
    and "logged_in a \<Longrightarrow> logged_in a'"
    and "length (sent w) \<le> length (sent w')"
    and "r \<noteq> Inr True \<Longrightarrow> sent w' = sent w @ [login_request a]"
  using assms
  by (auto simp: login_def http_def set_port_calls_def split: if_splits sum.splits)

lemma ensure_login_frame:
  assumes "ensure_login a w = (r, a', w')"
  shows "fs w' = fs w \<and> server w' = server w \<and> host a' = host a
    \<and> disable_auth a' = disable_auth a
    \<and> set_port_calls a (sent w') = set_port_calls a (sent w)
    \<and> (r = Inr True \<longrightarrow> logged_in a') \<and> (r \<noteq> Inr True \<longrightarrow> a' = a)
    \<and> length (sent w) \<le> length (sent w')
    \<and> (r \<noteq> Inr True \<longrightarrow> sent w' = sent w @ [login_request a])"
proof (cases "logged_in a")
  case True
  with assms show ?thesis by (simp add: ensure_login_def)
next
  case False
  with assms have l: "login a w = (r, a', w')" by (simp add: ensure_login_def)
  show ?thesis using login_frame[OF l] by simp
qed

lemma ensure_login_logged_in: "logged_in a \<Longrightarrow> ensure_login a w = (Inr True, a, w)"
  by (simp add: ensure_login_def)

lemma set_port_logged_in:
  assumes "logged_in a"
  shows "set_port a port w =
    (case server w (sent w @ [set_port_request a port]) of
       Inr resp \<Rightarrow> Inr (status_code resp = 200)
     | Inl e \<Rightarrow> if e = RequestException then Inr False else Inl e,
     a, w\<lparr>sent := sent w @ [set_port_request a port]\<rparr>)"
  using assms by (simp add: set_port_def ensure_login_def http_def split: sum.splits)

lemma set_port_cases:
  assumes "set_port a port w = (r, a', w')"
  obtains (no_login) "ensure_login a w = (r, a', w')" "r \<noteq> Inr True"
  | (sent) w1 where "ensure_login a w = (Inr True, a', w1)"
      "w' = w1\<lparr>sent := sent w1 @ [set_port_request a' port]\<rparr>"
      "r = (case server w1 (sent w1 @ [set_port_request a' port]) of
              Inr resp \<Rightarrow> Inr (status_code resp = 200)
            | Inl e \<Rightarrow> if e = RequestException then Inr False else Inl e)"
proof (cases "ensure_login a w")
  case (fields r0 a1 w1)
  show ?thesis
  proof (cases "r0 = Inr True")
    case True
    with fields assms show ?thesis
      by (intro sent[of w1]) (auto simp: set_port_def http_def split: sum.splits if_splits)
  next
    case False
    with fields assms show ?thesis
      by (intro no_login) (auto simp: set_port_def split: sum.splits bool.splits if_splits)
  qed
qed

lemma update_port_parsed:
  assumes "fs w (port_file_path h) = Content raw" and "py_int (strip raw) = Some p"
  shows "update_port h a w =
    (if Some p = last_port h then (h, a, w)
     else case set_port a p w of
            (Inr True, a1, w1) \<Rightarrow> (h\<lparr>last_port := Some p\<rparr>, a1, w1)
          | (Inr False, a1, w1) \<Rightarrow> (h, a1, w1)
          | (Inl e, a1, w1) \<Rightarrow> (h, a1, w1))"
proof -
  from assms(2) have "strip raw \<noteq> []" by (auto simp: py_int_def)
  with assms show ?thesis by (simp add: update_port_def)
qed

lemma set_port_frame:
  assumes "set_port a port w = (r, a', w')"
  shows "fs w' = fs w \<and> server w' = server w \<and> host a' = host a"
  using assms
proof (cases rule: set_port_cases)
  case no_login
  from ensure_login_frame[OF no_login(1)] show ?thesis by simp
next
  case (sent w1)
  from ensure_login_frame[OF sent(1)] sent(2) show ?thesis by simp
qed

lemma set_port_success:
  assumes "set_port a port w = (Inr True, a', w')"
  shows "set_port_calls a (sent w') = set_port_calls a (sent w) @ [set_port_request a port]
    \<and> sent w' \<noteq> [] \<and> last (sent w') = set_port_request a' port
    \<and> (\<exists>resp. server w (sent w') = Inr resp \<and> status_code resp = 200)"
  using assms
proof (cases rule: set_port_cases)
  case no_login
  then show ?thesis by simp
next
  case (sent w1)
  from ensure_login_frame[OF sent(1)]
  have f: "server w1 = server w" "host a' = host a"
    "set_port_calls a (sent w1) = set_port_calls a (sent w)" by simp_all
  then have r: "set_port_request a' port = set_port_request a port"
    by (simp add: set_port_request_def)
  from sent(3) f(1) have "\<exists>resp. server w (sent w1 @ [set_port_request a' port]) = Inr resp \<and> status_code resp = 200"
    by (auto split: sum.splits if_splits)
  with sent(2) f r show ?thesis
    by (simp add: set_port_calls_def) 
qed

lemma set_port_sends:
  assumes "set_port a port w = (r, a', w')"
  shows "length (sent w) < length (sent w')
    \<and> (logged_in a \<longrightarrow> sent w' = sent w @ [set_port_request a port])"
  using assms
proof (cases rule: set_port_cases)
  case no_login
  from ensure_login_frame[OF no_login(1)] no_login(2)
  have "sent w' = sent w @ [login_request a]" by simp
  moreover from no_login have "\<not> logged_in a" by (auto simp: ensure_login_def)
  ultimately show ?thesis by simp
next
  case (sent w1)
  from ensure_login_frame[OF sent(1)] have "length (sent w) \<le> length (sent w1)" by simp
  with sent(2) have "length (sent w) < length (sent w')" by simp
  moreover have "sent w' = sent w @ [set_port_request a port]" if "logged_in a"
    using that sent(1,2) by (simp add: ensure_login_def)
  ultimately show ?thesis by simp
qed

section \<open>Basic facts about integers as text\<close>

lemma char_of_digit: "(n::nat) < 10 \<Longrightarrow> of_char (char_of (48 + n)) = (48 + n :: nat)"
  by (simp add: of_char_of)

lemma digit_val_digit: "(n::nat) < 10 \<Longrightarrow> digit_val (char_of (48 + n)) = Some n"
  by (simp add: digit_val_def char_of_digit Let_def)

lemma digit_not_underscore: "(n::nat) < 10 \<Longrightarrow> char_of (48 + n) \<noteq> CHR ''_''"
proof
  assume "n < 10" "char_of (48 + n) = CHR ''_''"
  then have "of_char (char_of (48 + n)) = (of_char (CHR ''_'') :: nat)" by simp
  with \<open>n < 10\<close> show False by (simp add: char_of_digit)
qed

lemma digit_not_sign: "(n::nat) < 10 \<Longrightarrow> char_of (48 + n) \<noteq> CHR ''-'' \<and> char_of (48 + n) \<noteq> CHR ''+''"
proof (intro conjI notI)
  assume "n < 10" "char_of (48 + n) = CHR ''-''"
  then have "of_char (char_of (48 + n)) = (of_char (CHR ''-'') :: nat)" by simp
  with \<open>n < 10\<close> show False by (simp add: char_of_digit)
next
  assume "n < 10" "char_of (48 + n) = CHR ''+''"
  then have "of_char (char_of (48 + n)) = (of_char (CHR ''+'') :: nat)" by simp
  with \<open>n < 10\<close> show False by (simp add: char_of_digit)
qed

lemma scan_digit: "n < 10 \<Longrightarrow> scan prev acc (char_of (48 + n) # cs) = scan True (10 * acc + n) cs"
  by (simp add: digit_val_digit digit_not_underscore)

lemma scan_str_nat: "scan prev acc (str_nat n @ cs) = scan True (acc * 10 ^ length (str_nat n) + n) cs"
proof (induction n arbitrary: prev acc cs rule: str_nat.induct)
  case (1 n)
  show ?case
  proof (cases "n < 10")
    case True
    then have "str_nat n = [char_of (48 + n)]" by (subst str_nat.simps) simp
    with scan_digit[OF True, of prev acc cs] show ?thesis by (simp del: scan.simps add: mult.commute)
  next
    case False
    have d: "n mod 10 < 10" by simp
    have "scan prev acc (str_nat n @ cs) = scan prev acc (str_nat (n div 10) @ char_of (48 + n mod 10) # cs)"
      using False by (subst str_nat.simps) simp
    also have "\<dots> = scan True (acc * 10 ^ length (str_nat (n div 10)) + n div 10) (char_of (48 + n mod 10) # cs)"
      using False by (simp add: "1.IH")
    also have "\<dots> = scan True (10 * (acc * 10 ^ length (str_nat (n div 10)) + n div 10) + n mod 10) cs"
      by (rule scan_digit[OF d])
    also have "10 * (acc * 10 ^ length (str_nat (n div 10)) + n div 10) + n mod 10
        = acc * 10 ^ length (str_nat n) + n"
      using False by (subst (2) str_nat.simps) (simp add: algebra_simps)
    finally show ?thesis .
  qed
qed

lemma scan_str_nat_all: "scan False 0 (str_nat n) = Some n"
  using scan_str_nat[of False 0 n "[]"] by simp

lemma str_nat_head: "\<exists>(d::nat) cs. d < 10 \<and> str_nat n = char_of (48 + d) # cs"
proof (induction n rule: str_nat.induct)
  case (1 n)
  show ?case
  proof (cases "n < 10")
    case True
    then have "str_nat n = char_of (48 + n) # []" by (subst str_nat.simps) simp
    with True show ?thesis by blast
  next
    case False
    with 1 obtain d :: nat and cs where d: "d < 10" "str_nat (n div 10) = char_of (48 + d) # cs"
      by blast
    from False have "str_nat n = str_nat (n div 10) @ [char_of (48 + n mod 10)]"
      by (subst str_nat.simps) simp
    with d have "str_nat n = char_of (48 + d) # (cs @ [char_of (48 + n mod 10)])" by simp
    with d(1) show ?thesis by blast
  qed
qed

lemma py_int_str_int: "py_int (str_int i) = Some i"
proof (cases "i < 0")
  case True
  then show ?thesis by (simp add: py_int_def str_int_def scan_str_nat_all)
next
  case False
  obtain d :: nat and cs where d: "d < 10" "str_nat (nat i) = char_of (48 + d) # cs"
    using str_nat_head by blast
  have "py_int (str_nat (nat i)) = map_option int (scan False 0 (str_nat (nat i)))"
    using d digit_not_sign[OF d(1)] by (simp add: py_int_def)
  with False show ?thesis by (simp add: str_int_def scan_str_nat_all)
qed

section \<open>Basic facts about the handler and main\<close>

lemma get_preferences_logged_in:
  assumes "logged_in a"
  shows "get_preferences a w =
    (case server w (sent w @ [preferences_request a]) of
       Inr resp \<Rightarrow>
         if status_code resp = 200
         then (case json resp of
                 Inr v \<Rightarrow> Inr v
               | Inl e \<Rightarrow> if e = RequestException then Inr JNull else Inl e)
         else Inr JNull
     | Inl e \<Rightarrow> if e = RequestException then Inr JNull else Inl e,
     a, w\<lparr>sent := sent w @ [preferences_request a]\<rparr>)"
  using assms
  by (simp add: get_preferences_def ensure_login_def http_def split: sum.splits)

lemma get_preferences_frame:
  assumes "get_preferences a w = (r, a', w')"
  shows "fs w' = fs w \<and> server w' = server w \<and> host a' = host a
    \<and> set_port_calls a (sent w') = set_port_calls a (sent w)"
proof (cases "ensure_login a w")
  case (fields r0 a1 w1)
  note f = ensure_login_frame[OF fields]
  show ?thesis
  proof (cases "r0 = Inr True")
    case True
    with fields assms have "a' = a1" "w' = w1\<lparr>sent := sent w1 @ [preferences_request a1]\<rparr>"
      by (auto simp: get_preferences_def http_def split: sum.splits if_splits)
    with f show ?thesis by (simp add: set_port_calls_def)
  next
    case False
    with fields assms have "a' = a1" "w' = w1"
      by (auto simp: get_preferences_def split: sum.splits bool.splits)
    with f show ?thesis by simp
  qed
qed

lemma update_port_cases:
  assumes "update_port h a w = (h', a', w')"
  obtains (same) "h' = h" "a' = a" "w' = w"
  | (failed) port r where "Some port \<noteq> last_port h" "set_port a port w = (r, a', w')"
      "r \<noteq> Inr True" "h' = h"
  | (pushed) port where "Some port \<noteq> last_port h" "set_port a port w = (Inr True, a', w')"
      "h' = h\<lparr>last_port := Some port\<rparr>"
proof (cases "fs w (port_file_path h)")
  case Absent
  with assms show ?thesis by (intro same) (simp_all add: update_port_def)
next
  case (Unreadable e)
  with assms show ?thesis by (intro same) (simp_all add: update_port_def)
next
  case (Content raw)
  show ?thesis
  proof (cases "py_int (strip raw)")
    case None
    with Content assms show ?thesis
      by (intro same) (simp_all add: update_port_def Let_def split: if_splits)
  next
    case (Some port)
    note u = update_port_parsed[OF Content Some, of a]
    show ?thesis
    proof (cases "Some port = last_port h")
      case True
      with u assms show ?thesis by (intro same) simp_all
    next
      case False
      obtain r a1 w1 where sp: "set_port a port w = (r, a1, w1)" by (cases "set_port a port w")
      show ?thesis
      proof (cases "r = Inr True")
        case True
        with u assms False sp show ?thesis by (intro pushed[of port]) simp_all
      next
        case r: False
        with u assms False sp have "h' = h" "a' = a1" "w' = w1"
          by (auto split: sum.splits bool.splits)
        with False sp r show ?thesis by (intro failed[of port r]) simp_all
      qed
    qed
  qed
qed

lemma update_port_frame:
  assumes "update_port h a w = (h', a', w')"
  shows "fs w' = fs w \<and> server w' = server w \<and> host a' = host a
    \<and> port_file_path h' = port_file_path h"
  using assms
proof (cases rule: update_port_cases)
  case same
  then show ?thesis by simp
next
  case (failed port r)
  with set_port_frame[OF failed(2)] show ?thesis by simp
next
  case (pushed port)
  with set_port_frame[OF pushed(2)] show ?thesis by simp
qed

lemma update_port_change:
  assumes "update_port h a w = (h', a', w')" and "last_port h' \<noteq> last_port h"
  shows "\<exists>port resp. last_port h' = Some port \<and> Some port \<noteq> last_port h
    \<and> sent w' \<noteq> [] \<and> last (sent w') = set_port_request a' port
    \<and> server w' (sent w') = Inr resp \<and> status_code resp = 200"
  using assms(1)
proof (cases rule: update_port_cases)
  case same
  with assms(2) show ?thesis by simp
next
  case (failed port r)
  with assms(2) show ?thesis by simp
next
  case (pushed port)
  from set_port_success[OF pushed(2)] set_port_frame[OF pushed(2)] pushed(1,3)
  show ?thesis by auto
qed

lemma update_port_keeps_Some:
  assumes "update_port h a w = (h', a', w')" and "last_port h = Some p"
  shows "last_port h' = Some p \<or> (\<exists>q. q \<noteq> p \<and> last_port h' = Some q)"
  using assms(1)
proof (cases rule: update_port_cases)
  case same
  with assms(2) show ?thesis by simp
next
  case (failed port r)
  with assms(2) show ?thesis by simp
next
  case (pushed port)
  with assms(2) show ?thesis by auto
qed

lemma step_cases:
  assumes "step e (h, a, w) = Inr (h', a', w')"
  obtains (update) "update_port h a w = (h', a', w')"
  | (other) "h' = h"
proof (cases e)
  case (Modified src d)
  with assms show ?thesis
    by (cases "src = port_file_path h \<and> \<not> d") (auto simp: on_modified_def intro: update other)
next
  case (Created src d)
  with assms show ?thesis
    by (cases "src = port_file_path h \<and> \<not> d") (auto simp: on_created_def intro: update other)
next
  case Tick
  with assms show ?thesis by (intro other) (auto split: sum.splits)
next
  case (FileChange p st)
  with assms show ?thesis by (intro other) auto
qed

lemma set_port_calls_host: "host a = host b \<Longrightarrow> set_port_calls a rs = set_port_calls b rs"
proof -
  assume "host a = host b"
  then have "is_set_port a = is_set_port b" by (intro ext) (simp add: is_set_port_def split: request.splits)
  then show ?thesis by (simp add: set_port_calls_def)
qed

lemma set_port_request_host: "host a = host b \<Longrightarrow> set_port_request a p = set_port_request b p"
  by (simp add: set_port_request_def)

lemma step_keeps_Some:
  assumes "step e (h, a, w) = Inr (h', a', w')" and "last_port h = Some p"
  shows "\<exists>q. last_port h' = Some q"
  using assms(1)
proof (cases rule: step_cases)
  case update
  from update_port_keeps_Some[OF update assms(2)] show ?thesis by auto
next
  case other
  with assms(2) show ?thesis by simp
qed

lemma run_keeps_Some:
  "run es (h, a, w) = Inr (h', a', w') \<Longrightarrow> last_port h = Some p \<Longrightarrow> \<exists>q. last_port h' = Some q"
proof (induction es arbitrary: h a w p)
  case Nil
  then show ?case by simp
next
  case (Cons e es)
  from Cons.prems(1) obtain h1 a1 w1 where s: "step e (h, a, w) = Inr (h1, a1, w1)"
    and r: "run es (h1, a1, w1) = Inr (h', a', w')"
    by (cases "step e (h, a, w)") auto
  from step_keeps_Some[OF s Cons.prems(2)] obtain q where "last_port h1 = Some q" ..
  from Cons.IH[OF r this] show ?case .
qed

lemma initial_check_parsed:
  assumes "fs w pf = Content raw" and "py_int (strip raw) = Some fp"
    and "get_preferences a w = (Inr prefs, a1, w1)"
  shows "initial_check pf h a w =
    (if truthy prefs then
       (case py_get prefs ''listen_port'' of
          Inl e \<Rightarrow> if caught_by_main e then Inr (h, a1, w1) else Inl e
        | Inr current_port \<Rightarrow>
            if py_eq_int current_port fp then Inr (h\<lparr>last_port := Some fp\<rparr>, a1, w1)
            else Inr (update_port h a1 w1))
     else Inr (update_port h a1 w1))"
proof -
  from assms(2) have "strip raw \<noteq> []" by (auto simp: py_int_def)
  with assms show ?thesis by (simp add: initial_check_def)
qed

lemma get_preferences_truthy:
  assumes "get_preferences a w = (Inr prefs, a1, w1)" and "logged_in a" and "truthy prefs"
  shows "a1 = a \<and> w1 = w\<lparr>sent := sent w @ [preferences_request a]\<rparr>
    \<and> (\<exists>resp. server w (sent w @ [preferences_request a]) = Inr resp
          \<and> status_code resp = 200 \<and> json resp = Inr prefs)"
  using assms by (auto simp: get_preferences_logged_in split: sum.splits if_splits)

lemma initial_check_cases:
  assumes "initial_check pf h a w = Inr (h', a', w')"
  obtains (skip) "h' = h"
  | (matched) fp prefs cur where "get_preferences a w = (Inr prefs, a', w')" "truthy prefs"
      "py_get prefs ''listen_port'' = Inr cur" "py_eq_int cur fp" "h' = h\<lparr>last_port := Some fp\<rparr>"
  | (update) r a1 w1 where "get_preferences a w = (r, a1, w1)"
      "update_port h a1 w1 = (h', a', w')"
proof (cases "fs w pf")
  case Absent
  with assms show ?thesis by (intro skip) (simp add: initial_check_def)
next
  case (Unreadable e)
  with assms show ?thesis by (intro skip) (simp add: initial_check_def split: if_splits)
next
  case (Content raw)
  show ?thesis
  proof (cases "py_int (strip raw)")
    case None
    with Content assms show ?thesis
      by (intro skip) (simp add: initial_check_def Let_def split: if_splits)
  next
    case (Some fp)
    then have ne: "strip raw \<noteq> []" by (auto simp: py_int_def)
    obtain r a1 w1 where g: "get_preferences a w = (r, a1, w1)" by (cases "get_preferences a w")
    show ?thesis
    proof (cases r)
      case (Inl e)
      with Content Some ne g assms show ?thesis
        by (intro skip) (simp add: initial_check_def split: if_splits)
    next
      case (Inr prefs)
      with g have g': "get_preferences a w = (Inr prefs, a1, w1)" by simp
      note ic = initial_check_parsed[OF Content Some g', of h]
      show ?thesis
      proof (cases "truthy prefs")
        case False
        with ic assms have "update_port h a1 w1 = (h', a', w')" by simp
        with g show ?thesis by (rule update)
      next
        case True
        show ?thesis
        proof (cases "py_get prefs ''listen_port''")
          case (Inl e)
          with ic True assms show ?thesis by (intro skip) (simp split: if_splits)
        next
          case cur: (Inr cur)
          show ?thesis
          proof (cases "py_eq_int cur fp")
            case False
            with ic True cur assms have "update_port h a1 w1 = (h', a', w')" by simp
            with g show ?thesis by (rule update)
          next
            case eq: True
            with ic True cur assms have "h' = h\<lparr>last_port := Some fp\<rparr>" "a' = a1" "w' = w1"
              by simp_all
            with g' True cur eq show ?thesis by (intro matched[of prefs cur fp]) simp_all
          qed
        qed
      qed
    qed
  qed
qed

lemma step_change:
  assumes "step e (h, a, w) = Inr (h', a', w')" and "last_port h' \<noteq> last_port h"
  shows "\<exists>port resp. last_port h' = Some port
    \<and> sent w' \<noteq> [] \<and> last (sent w') = set_port_request a' port
    \<and> server w' (sent w') = Inr resp \<and> status_code resp = 200"
  using assms(1)
proof (cases rule: step_cases)
  case update
  from update_port_change[OF update assms(2)] show ?thesis by blast
next
  case other
  with assms(2) show ?thesis by simp
qed

lemma main_startup_change:
  assumes "main_startup cfg w0 = Started h1 a1 w1" and "last_port h1 \<noteq> None"
  shows "\<exists>port resp. last_port h1 = Some port \<and> sent w1 \<noteq> []
    \<and> server w1 (sent w1) = Inr resp \<and> status_code resp = 200
    \<and> (last (sent w1) = set_port_request a1 port
        \<or> (last (sent w1) = preferences_request a1
            \<and> (\<exists>prefs cur. json resp = Inr prefs \<and> py_get prefs ''listen_port'' = Inr cur
                  \<and> py_eq_int cur port)
            \<and> set_port_calls a1 (sent w1) = set_port_calls a1 (sent w0)))"
proof -
  let ?a0 = "QBittorrentAPI_init (QB_HOST cfg) (QB_USERNAME cfg) (QB_PASSWORD cfg) (QB_DISABLE_AUTH cfg)"
  let ?h0 = "PortFileHandler_init (PORT_FILE cfg)"
  obtain r aL wL where l: "login ?a0 w0 = (r, aL, wL)" by (cases "login ?a0 w0")
  with assms(1) have r: "r = Inr True"
    by (auto simp: main_startup_def split: sum.splits bool.splits)
  with l have l': "login ?a0 w0 = (Inr True, aL, wL)" by simp
  note lf = login_frame[OF l']
  from lf have li: "logged_in aL" by simp
  from assms(1) l' have ic: "initial_check (PORT_FILE cfg) ?h0 aL wL = Inr (h1, a1, w1)"
    by (auto simp: main_startup_def split: sum.splits)
  have h0: "last_port ?h0 = None" by (simp add: PortFileHandler_init_def)
  from ic show ?thesis
  proof (cases rule: initial_check_cases)
    case skip
    with h0 assms(2) show ?thesis by simp
  next
    case (matched fp prefs cur)
    from get_preferences_truthy[OF matched(1) li matched(2)]
    obtain resp where a1: "a1 = aL" and w1: "w1 = wL\<lparr>sent := sent wL @ [preferences_request aL]\<rparr>"
      and resp: "server wL (sent wL @ [preferences_request aL]) = Inr resp"
        "status_code resp = 200" "json resp = Inr prefs" by blast
    have "set_port_calls a1 (sent w1) = set_port_calls a1 (sent w0)"
      using lf(5) a1 w1 set_port_calls_host[of aL ?a0] lf(3) by (simp add: set_port_calls_def)
    with a1 w1 resp matched(3,4,5) show ?thesis by auto
  next
    case (update r2 a2 w2)
    from update(2) h0 assms(2) have "last_port h1 \<noteq> last_port ?h0" by simp
    from update_port_change[OF update(2) this] show ?thesis by blast
  qed
qed

section \<open>Reconciliation on an empty file\<close>

text \<open>
  C1. When the port file exists and its content is empty after trimming, and a port \<open>p\<close>
  was applied before, \<open>update_port\<close> sends no request at all (so no set-port call) and
  the last applied port is still \<open>p\<close>; the client's state is untouched too.
\<close>

theorem update_port_empty_file_keeps_port:
  assumes "fs w (port_file_path h) = Content raw"
    and "strip raw = []"
    and "last_port h = Some p"
  shows "update_port h a w = (h, a, w) \<and> last_port (fst (update_port h a w)) = Some p
    \<and> sent (snd (snd (update_port h a w))) = sent w"
  using assms by (simp add: update_port_def)

theorem update_port_empty_file_keeps_port_witness:
  "fs (boot_world [CHR 0x0A] (service 1)) (port_file_path (watcher (Some 9999))) = Content [CHR 0x0A]
   \<and> strip [CHR 0x0A] = []
   \<and> last_port (watcher (Some 9999)) = Some 9999
   \<and> update_port (watcher (Some 9999)) (client True) (boot_world [CHR 0x0A] (service 1))
       = (watcher (Some 9999), client True, boot_world [CHR 0x0A] (service 1))
   \<and> sent (snd (snd (update_port (watcher (Some 9999)) (client True) (boot_world [CHR 0x0A] (service 1))))) = []"
  using update_port_empty_file_keeps_port
    [of "boot_world [CHR 0x0A] (service 1)" "watcher (Some 9999)" "[CHR 0x0A]" 9999 "client True"]
  by (simp add: env_defs py_defs)

section \<open>Reconciliation on an unchanged port\<close>

text \<open>
  C2. When the file parses to the integer that is the last applied port, \<open>update_port\<close>
  changes nothing and sends nothing. Applied twice in a row to the same file, where the
  first run applies the value, the two runs together make exactly one set-port call: the
  second run is suppressed.
\<close>

theorem same_port_is_suppressed:
  assumes "fs w (port_file_path h) = Content raw" and "py_int (strip raw) = Some p"
  shows "(last_port h = Some p \<longrightarrow> update_port h a w = (h, a, w))
    \<and> (last_port h \<noteq> Some p \<and> update_port h a w = (h1, a1, w1) \<and> last_port h1 = Some p \<longrightarrow>
         update_port h1 a1 w1 = (h1, a1, w1)
         \<and> set_port_calls a (sent w1) = set_port_calls a (sent w) @ [set_port_request a p])"
proof (intro conjI impI)
  assume "last_port h = Some p"
  with assms show "update_port h a w = (h, a, w)" by (simp add: update_port_parsed)
next
  assume *: "last_port h \<noteq> Some p \<and> update_port h a w = (h1, a1, w1) \<and> last_port h1 = Some p"
  obtain r a' w' where sp: "set_port a p w = (r, a', w')" by (cases "set_port a p w")
  from * assms sp have r: "r = Inr True" and eq: "h1 = h\<lparr>last_port := Some p\<rparr>" "a1 = a'" "w1 = w'"
    by (auto simp: update_port_parsed split: sum.splits bool.splits if_splits)
  from set_port_frame[OF sp] eq have "fs w1 (port_file_path h1) = Content raw"
    using assms(1) by simp
  with assms(2) * show "update_port h1 a1 w1 = (h1, a1, w1)"
    by (simp add: update_port_parsed)
  from set_port_success[of a p w a' w'] sp r eq
  show "set_port_calls a (sent w1) = set_port_calls a (sent w) @ [set_port_request a p]"
    by simp
qed

theorem same_port_is_suppressed_witness:
  "fs (boot_world ''56789'' (service 1)) (port_file_path (watcher None)) = Content ''56789''
   \<and> py_int (strip ''56789'') = Some 56789
   \<and> last_port (watcher None) \<noteq> Some 56789
   \<and> update_port (watcher None) (client True) (boot_world ''56789'' (service 1))
       = (watcher (Some 56789), client True,
          (boot_world ''56789'' (service 1))\<lparr>sent := [set_port_request (client True) 56789]\<rparr>)
   \<and> update_port (watcher (Some 56789)) (client True)
         ((boot_world ''56789'' (service 1))\<lparr>sent := [set_port_request (client True) 56789]\<rparr>)
       = (watcher (Some 56789), client True,
          (boot_world ''56789'' (service 1))\<lparr>sent := [set_port_request (client True) 56789]\<rparr>)
   \<and> set_port_calls (client True) [set_port_request (client True) 56789]
       = [set_port_request (client True) 56789]"
  using same_port_is_suppressed
    [of "boot_world ''56789'' (service 1)" "watcher None" "''56789''" 56789 "client True"
        "watcher (Some 56789)" "client True"
        "(boot_world ''56789'' (service 1))\<lparr>sent := [set_port_request (client True) 56789]\<rparr>"]
  by (simp add: env_defs py_defs update_port_def api_defs set_port_calls_def is_set_port_def)

section \<open>A failed push\<close>

text \<open>
  C5. When \<open>update_port\<close> pushes a new value and \<open>set_port\<close> does not return success
  (it returns failure, or raises), the handler and so the last applied port are
  unchanged. A later run on a file that carries the same value, from any state of the
  client and the world, is therefore not suppressed: it is the run of \<open>set_port\<close> on that
  value, it sends at least one request, and with a logged-in client that request is the
  write itself.
\<close>

theorem failed_push_keeps_last_port:
  assumes "fs w (port_file_path h) = Content raw" and "py_int (strip raw) = Some p"
    and "last_port h \<noteq> Some p"
    and "set_port a p w = (r, a1, w1)" and "r \<noteq> Inr True"
  shows "update_port h a w = (h, a1, w1)
    \<and> (fs w2 (port_file_path h) = Content raw2 \<and> py_int (strip raw2) = Some p \<longrightarrow>
         update_port h a2 w2 =
           (case set_port a2 p w2 of
              (r', a', w') \<Rightarrow> (if r' = Inr True then h\<lparr>last_port := Some p\<rparr> else h, a', w'))
         \<and> length (sent w2) < length (sent (snd (snd (update_port h a2 w2))))
         \<and> (logged_in a2 \<longrightarrow>
              sent (snd (snd (update_port h a2 w2))) = sent w2 @ [set_port_request a2 p]))"
proof (intro conjI impI)
  from assms show "update_port h a w = (h, a1, w1)"
    by (auto simp: update_port_parsed split: sum.splits bool.splits)
next
  assume f: "fs w2 (port_file_path h) = Content raw2 \<and> py_int (strip raw2) = Some p"
  obtain r' a' w' where sp: "set_port a2 p w2 = (r', a', w')" by (cases "set_port a2 p w2")
  from f assms(3) sp have u: "update_port h a2 w2 = (if r' = Inr True then h\<lparr>last_port := Some p\<rparr> else h, a', w')"
    by (auto simp: update_port_parsed split: sum.splits bool.splits)
  with sp show "update_port h a2 w2 =
           (case set_port a2 p w2 of
              (r', a', w') \<Rightarrow> (if r' = Inr True then h\<lparr>last_port := Some p\<rparr> else h, a', w'))"
    by simp
  from set_port_sends[OF sp] u
  show "length (sent w2) < length (sent (snd (snd (update_port h a2 w2))))" by simp
  assume "logged_in a2"
  with set_port_sends[OF sp] u
  show "sent (snd (snd (update_port h a2 w2))) = sent w2 @ [set_port_request a2 p]" by simp
qed

theorem failed_push_keeps_last_port_witness:
  "fs (boot_world ''56789'' unreachable) (port_file_path (watcher (Some 1234))) = Content ''56789''
   \<and> py_int (strip ''56789'') = Some 56789
   \<and> last_port (watcher (Some 1234)) \<noteq> Some 56789
   \<and> set_port (client True) 56789 (boot_world ''56789'' unreachable)
       = (Inr False, client True,
          (boot_world ''56789'' unreachable)\<lparr>sent := [set_port_request (client True) 56789]\<rparr>)
   \<and> update_port (watcher (Some 1234)) (client True) (boot_world ''56789'' unreachable)
       = (watcher (Some 1234), client True,
          (boot_world ''56789'' unreachable)\<lparr>sent := [set_port_request (client True) 56789]\<rparr>)
   \<and> sent (snd (snd (update_port (watcher (Some 1234)) (client True)
          ((boot_world ''56789'' unreachable)\<lparr>sent := [set_port_request (client True) 56789]\<rparr>))))
       = [set_port_request (client True) 56789, set_port_request (client True) 56789]"
  using failed_push_keeps_last_port
    [of "boot_world ''56789'' unreachable" "watcher (Some 1234)" "''56789''" 56789 "client True"
        "Inr False" "client True"
        "(boot_world ''56789'' unreachable)\<lparr>sent := [set_port_request (client True) 56789]\<rparr>"
        "(boot_world ''56789'' unreachable)\<lparr>sent := [set_port_request (client True) 56789]\<rparr>"
        "''56789''" "client True"]
  by (simp add: env_defs py_defs update_port_def api_defs)

section \<open>login\<close>

text \<open>
  C6, as stated, fails: \<open>login\<close> never resets the flag. With authentication enabled, a
  client that is logged in and an unreachable service, \<open>login\<close> returns failure and
  \<open>logged_in\<close> is still true.
\<close>

theorem login_failure_counterexample:
  "\<not> disable_auth (client True)
   \<and> fst (login (client True) (boot_world ''56789'' unreachable)) = Inr False
   \<and> logged_in (fst (snd (login (client True) (boot_world ''56789'' unreachable))))"
  by (simp add: env_defs api_defs)


text \<open>
  C6, amended. With authentication enabled, a call of \<open>login\<close> that does not return
  success leaves the client exactly as it was: \<open>logged_in\<close> after the call is what it was
  before, so the state is unauthenticated after a failed call if it was before it.
\<close>

theorem login_failure_leaves_state:
  assumes "\<not> disable_auth a" and "fst (login a w) \<noteq> Inr True"
  shows "fst (snd (login a w)) = a
    \<and> logged_in (fst (snd (login a w))) = logged_in a"
  using assms by (auto simp: login_def http_def split: sum.splits if_splits)

theorem login_failure_leaves_state_witness:
  "\<not> disable_auth (client False)
   \<and> fst (login (client False) (boot_world ''56789'' unreachable)) \<noteq> Inr True
   \<and> fst (snd (login (client False) (boot_world ''56789'' unreachable))) = client False
   \<and> \<not> logged_in (fst (snd (login (client False) (boot_world ''56789'' unreachable))))"
  using login_failure_leaves_state [of "client False" "boot_world ''56789'' unreachable"]
  by (simp add: env_defs api_defs)

text \<open>
  C7. With authentication enabled, \<open>login\<close> returns success exactly when the login request
  is answered with status 200 and the body \<open>Ok.\<close>; status 200 with another body is a
  failure. The request is sent in every case.
\<close>

theorem login_success_iff:
  assumes "\<not> disable_auth a"
  shows "(fst (login a w) = Inr True) =
      (\<exists>resp. server w (sent w @ [login_request a]) = Inr resp
         \<and> status_code resp = 200 \<and> text_body resp = ''Ok.'')
    \<and> (server w (sent w @ [login_request a]) = Inr resp \<and> status_code resp = 200
         \<and> text_body resp \<noteq> ''Ok.'' \<longrightarrow> fst (login a w) = Inr False)
    \<and> sent (snd (snd (login a w))) = sent w @ [login_request a]"
  using assms by (auto simp: login_def http_def split: sum.splits if_splits)

theorem login_success_iff_witness:
  "\<not> disable_auth (client False)
   \<and> fst (login (client False) (boot_world ''56789'' (service 1))) = Inr True
   \<and> html_page [login_request (client False)]
       = Inr \<lparr>status_code = 200, text_body = ''<html></html>'', json = Inl RequestException\<rparr>
   \<and> fst (login (client False) (boot_world ''56789'' html_page)) = Inr False"
  using login_success_iff [of "client False" "boot_world ''56789'' (service 1)"]
    login_success_iff [of "client False" "boot_world ''56789'' html_page"
      "\<lparr>status_code = 200, text_body = ''<html></html>'', json = Inl RequestException\<rparr>"]
  by (simp add: env_defs api_defs)

section \<open>get_preferences\<close>




text \<open>
  Where the decoding of a status-200 body raises an exception that is not a
  \<^verbatim>\<open>RequestException\<close>, the \<^verbatim>\<open>except\<close> clause of \<open>get_preferences\<close> does not catch it and the
  call raises.
\<close>

lemma get_preferences_lets_ValueError_through:
  "fst (get_preferences (client True) (boot_world ''56789'' legacy_page)) = Inl ValueError"
  by (simp add: env_defs api_defs)

section \<open>set_port\<close>

text \<open>
  C9. For a logged-in client, \<open>set_port\<close> sends exactly one request, the POST to
  \<^verbatim>\<open>/api/v2/app/setPreferences\<close> whose form field \<^verbatim>\<open>json\<close> is the object with the three
  fields \<^verbatim>\<open>listen_port\<close> (the decimal text of the port, which reads back as the port),
  \<^verbatim>\<open>upnp\<close> false and \<^verbatim>\<open>random_port\<close> false; the result is success exactly when the answer
  has status 200, whatever its body.
\<close>

theorem set_port_request_and_result:
  assumes "logged_in a"
  shows \<open>sent (snd (snd (set_port a port w))) =
      sent w @ [POST (host a @ ''/api/v2/app/setPreferences'')
                  [(''json'', ''{"listen_port": '' @ str_int port @ '', "upnp": false, "random_port": false}'')] 10]
    \<and> py_int (str_int port) = Some port
    \<and> (fst (set_port a port w) = Inr True) =
        (\<exists>resp. server w (sent w @ [set_port_request a port]) = Inr resp \<and> status_code resp = 200)\<close>
proof (intro conjI)
  from assms show \<open>sent (snd (snd (set_port a port w))) =
      sent w @ [POST (host a @ ''/api/v2/app/setPreferences'')
                  [(''json'', ''{"listen_port": '' @ str_int port @ '', "upnp": false, "random_port": false}'')] 10]\<close>
    by (simp add: set_port_logged_in set_port_request_def json_dumps_def preferences_def)
  show "py_int (str_int port) = Some port" by (rule py_int_str_int)
  from assms show "(fst (set_port a port w) = Inr True) =
        (\<exists>resp. server w (sent w @ [set_port_request a port]) = Inr resp \<and> status_code resp = 200)"
    by (auto simp: set_port_logged_in split: sum.splits)
qed

theorem set_port_request_and_result_witness:
  \<open>logged_in (client True)
   \<and> sent (snd (snd (set_port (client True) 56789 (boot_world ''56789'' (service 1))))) =
       [POST ''http://localhost:8080/api/v2/app/setPreferences''
          [(''json'', ''{"listen_port": '' @ str_int 56789 @ '', "upnp": false, "random_port": false}'')] 10]
   \<and> fst (set_port (client True) 56789 (boot_world ''56789'' (service 1))) = Inr True
   \<and> fst (set_port (client True) 56789 (boot_world ''56789'' unreachable)) = Inr False\<close>
  using set_port_request_and_result [of "client True" 56789 "boot_world ''56789'' (service 1)"]
    set_port_request_and_result [of "client True" 56789 "boot_world ''56789'' unreachable"]
  by (simp add: env_defs api_defs json_dumps_def preferences_def)

section \<open>The last applied port is never cleared\<close>

text \<open>
  C10. Once the last applied port holds an integer, \<open>update_port\<close> leaves it unchanged or
  replaces it with another integer, and after any sequence of events (file-system
  events, health checks, rewrites of the file) it still holds an integer.
\<close>

theorem last_port_never_cleared:
  assumes "last_port h = Some p"
  shows "(last_port (fst (update_port h a w)) = Some p
          \<or> (\<exists>q. q \<noteq> p \<and> last_port (fst (update_port h a w)) = Some q))
    \<and> (run es (h, a, w) = Inr (h', a', w') \<longrightarrow> (\<exists>q. last_port h' = Some q))"
proof (intro conjI impI)
  obtain h1 a1 w1 where u: "update_port h a w = (h1, a1, w1)" by (cases "update_port h a w")
  from update_port_keeps_Some[OF u assms] u
  show "last_port (fst (update_port h a w)) = Some p
          \<or> (\<exists>q. q \<noteq> p \<and> last_port (fst (update_port h a w)) = Some q)" by simp
next
  assume "run es (h, a, w) = Inr (h', a', w')"
  from run_keeps_Some[OF this assms] show "\<exists>q. last_port h' = Some q" .
qed

theorem last_port_never_cleared_witness:
  "last_port (watcher (Some 1234)) = Some 1234
   \<and> last_port (fst (update_port (watcher (Some 1234)) (client True) (boot_world ''56789'' (service 1))))
       = Some 56789
   \<and> run [FileChange ''/app/port.dat'' (Content []), Modified ''/app/port.dat'' False, Tick,
           FileChange ''/app/port.dat'' Absent, Created ''/app/port.dat'' False]
        (watcher (Some 1234), client True, boot_world ''56789'' unreachable)
       = Inr (watcher (Some 1234), client False,
              \<lparr>fs = (port_dat ''56789'')(''/app/port.dat'' := Absent),
               sent = [preferences_request (client True), login_request (client True)],
               server = unreachable\<rparr>)"
  using last_port_never_cleared [of "watcher (Some 1234)" 1234 "client True"
      "boot_world ''56789'' (service 1)" "[]" "watcher (Some 1234)" "client True"
      "boot_world ''56789'' (service 1)"]
    last_port_never_cleared [of "watcher (Some 1234)" 1234 "client True"
      "boot_world ''56789'' unreachable"
      "[FileChange ''/app/port.dat'' (Content []), Modified ''/app/port.dat'' False, Tick,
        FileChange ''/app/port.dat'' Absent, Created ''/app/port.dat'' False]"
      "watcher (Some 1234)" "client False"
      "\<lparr>fs = (port_dat ''56789'')(''/app/port.dat'' := Absent),
        sent = [preferences_request (client True), login_request (client True)],
        server = unreachable\<rparr>"]
  by (simp add: env_defs py_defs update_port_def api_defs on_modified_def on_created_def
      health_check_def)

section \<open>Startup\<close>

text \<open>
  What startup does when \<open>get_preferences\<close> returns. In \<open>main\<close>, with the port file present
  and parsing to \<open>fp\<close>, after the initial login and with \<open>get_preferences\<close> returning
  \<open>prefs\<close>: if \<open>prefs\<close> is a non-empty object whose \<^verbatim>\<open>listen_port\<close> equals \<open>fp\<close>, no set-port
  call is made and the last applied port becomes \<open>fp\<close>; if its \<^verbatim>\<open>listen_port\<close> differs, or
  \<open>prefs\<close> is none (or empty), \<open>update_port\<close> runs and sends exactly one request, the
  set-port call that carries \<open>fp\<close>.
\<close>

lemma startup_reconciliation:
  assumes "fs w (PORT_FILE cfg) = Content raw" and "py_int (strip raw) = Some fp"
    and "login (QBittorrentAPI_init (QB_HOST cfg) (QB_USERNAME cfg) (QB_PASSWORD cfg)
           (QB_DISABLE_AUTH cfg)) w = (Inr True, a1, w1)"
    and "get_preferences a1 w1 = (Inr prefs, a2, w2)"
  shows "(truthy prefs \<and> py_get prefs ''listen_port'' = Inr cur \<and> py_eq_int cur fp \<longrightarrow>
            main_startup cfg w =
              Started ((PortFileHandler_init (PORT_FILE cfg))\<lparr>last_port := Some fp\<rparr>) a2 w2
            \<and> set_port_calls a2 (sent w2) = set_port_calls a2 (sent w))
    \<and> ((truthy prefs \<and> py_get prefs ''listen_port'' = Inr cur \<and> \<not> py_eq_int cur fp)
          \<or> \<not> truthy prefs \<longrightarrow>
            (\<exists>h' a' w'. update_port (PortFileHandler_init (PORT_FILE cfg)) a2 w2 = (h', a', w')
               \<and> main_startup cfg w = Started h' a' w'
               \<and> sent w' = sent w2 @ [set_port_request a2 fp]
               \<and> set_port_calls a2 (sent w') = set_port_calls a2 (sent w) @ [set_port_request a2 fp]))"
proof -
  let ?a0 = "QBittorrentAPI_init (QB_HOST cfg) (QB_USERNAME cfg) (QB_PASSWORD cfg) (QB_DISABLE_AUTH cfg)"
  let ?h0 = "PortFileHandler_init (PORT_FILE cfg)"
  note lf = login_frame[OF assms(3)]
  from lf have li1: "logged_in a1" by simp
  from li1 assms(4) have a2: "a2 = a1" and w2: "w2 = w1\<lparr>sent := sent w1 @ [preferences_request a1]\<rparr>"
    by (auto simp: get_preferences_logged_in)
  note gf = get_preferences_frame[OF assms(4)]
  from lf gf have pfile: "fs w1 (PORT_FILE cfg) = Content raw" "fs w2 (PORT_FILE cfg) = Content raw"
    using assms(1) by simp_all
  have hosts: "host a2 = host ?a0" using lf a2 by simp
  have calls: "set_port_calls a2 (sent w2) = set_port_calls a2 (sent w)"
    using lf(5) gf a2 set_port_calls_host[OF hosts] set_port_calls_host[of a1 ?a0] lf(3) by simp
  note ic = initial_check_parsed[OF pfile(1) assms(2) assms(4), of ?h0]
  have ms: "main_startup cfg w =
      (case initial_check (PORT_FILE cfg) ?h0 a1 w1 of Inl e \<Rightarrow> Crashed e | Inr (h, a, w) \<Rightarrow> Started h a w)"
    using assms(3) by (simp add: main_startup_def)
  have upd: "\<exists>h' a' w'. update_port ?h0 a2 w2 = (h', a', w')
               \<and> sent w' = sent w2 @ [set_port_request a2 fp]
               \<and> set_port_calls a2 (sent w') = set_port_calls a2 (sent w) @ [set_port_request a2 fp]"
  proof -
    obtain r a' w' where sp: "set_port a2 fp w2 = (r, a', w')" by (cases "set_port a2 fp w2")
    from li1 a2 have li2: "logged_in a2" by simp
    from set_port_sends[OF sp] li2 have snt: "sent w' = sent w2 @ [set_port_request a2 fp]" by simp
    have hfile: "fs w2 (port_file_path ?h0) = Content raw"
      using pfile(2) by (simp add: PortFileHandler_init_def)
    have lp: "Some fp \<noteq> last_port ?h0" by (simp add: PortFileHandler_init_def)
    from update_port_parsed[OF hfile assms(2), of a2] lp sp
    have "\<exists>h'. update_port ?h0 a2 w2 = (h', a', w')"
      by (auto split: sum.splits bool.splits)
    then obtain h' where "update_port ?h0 a2 w2 = (h', a', w')" ..
    moreover from snt calls have "set_port_calls a2 (sent w') = set_port_calls a2 (sent w) @ [set_port_request a2 fp]"
      by (simp add: set_port_calls_def)
    ultimately show ?thesis using snt by blast
  qed
  show ?thesis
  proof (intro conjI impI)
    assume m: "truthy prefs \<and> py_get prefs ''listen_port'' = Inr cur \<and> py_eq_int cur fp"
    with ic ms show "main_startup cfg w = Started (?h0\<lparr>last_port := Some fp\<rparr>) a2 w2" by simp
    show "set_port_calls a2 (sent w2) = set_port_calls a2 (sent w)" by (rule calls)
  next
    assume d: "(truthy prefs \<and> py_get prefs ''listen_port'' = Inr cur \<and> \<not> py_eq_int cur fp)
          \<or> \<not> truthy prefs"
    then have "initial_check (PORT_FILE cfg) ?h0 a1 w1 = Inr (update_port ?h0 a2 w2)"
      using ic by auto
    with ms have "main_startup cfg w = (case update_port ?h0 a2 w2 of (h, a, w) \<Rightarrow> Started h a w)"
      by (simp split: prod.splits)
    with upd show "\<exists>h' a' w'. update_port ?h0 a2 w2 = (h', a', w')
               \<and> main_startup cfg w = Started h' a' w'
               \<and> sent w' = sent w2 @ [set_port_request a2 fp]
               \<and> set_port_calls a2 (sent w') = set_port_calls a2 (sent w) @ [set_port_request a2 fp]"
      by auto
  qed
qed

lemma startup_reconciliation_examples:
  "fs (boot_world ''56789'' (service 56789)) (PORT_FILE default_config) = Content ''56789''
   \<and> py_int (strip ''56789'') = Some 56789
   \<and> main_startup default_config (boot_world ''56789'' (service 56789))
       = Started (watcher (Some 56789)) (client True)
           ((boot_world ''56789'' (service 56789))
              \<lparr>sent := [login_request (client False), preferences_request (client True)]\<rparr>)
   \<and> main_startup default_config (boot_world ''56789'' (service 12345))
       = Started (watcher (Some 56789)) (client True)
           ((boot_world ''56789'' (service 12345))
              \<lparr>sent := [login_request (client False), preferences_request (client True),
                        set_port_request (client True) 56789]\<rparr>)
   \<and> main_startup default_config (boot_world ''56789'' no_preferences)
       = Started (watcher (Some 56789)) (client True)
           ((boot_world ''56789'' no_preferences)
              \<lparr>sent := [login_request (client False), preferences_request (client True),
                        set_port_request (client True) 56789]\<rparr>)"
  using startup_reconciliation
    [of "boot_world ''56789'' (service 56789)" default_config "''56789''" 56789 "client True"
        "(boot_world ''56789'' (service 56789))\<lparr>sent := [login_request (client False)]\<rparr>"
        "JObj [(''listen_port'', JInt 56789), (''upnp'', JBool True)]" "client True"
        "(boot_world ''56789'' (service 56789))
           \<lparr>sent := [login_request (client False), preferences_request (client True)]\<rparr>"
        "JInt 56789"]
    startup_reconciliation
    [of "boot_world ''56789'' (service 12345)" default_config "''56789''" 56789 "client True"
        "(boot_world ''56789'' (service 12345))\<lparr>sent := [login_request (client False)]\<rparr>"
        "JObj [(''listen_port'', JInt 12345), (''upnp'', JBool True)]" "client True"
        "(boot_world ''56789'' (service 12345))
           \<lparr>sent := [login_request (client False), preferences_request (client True)]\<rparr>"
        "JInt 12345"]
    startup_reconciliation
    [of "boot_world ''56789'' no_preferences" default_config "''56789''" 56789 "client True"
        "(boot_world ''56789'' no_preferences)\<lparr>sent := [login_request (client False)]\<rparr>"
        "JNull" "client True"
        "(boot_world ''56789'' no_preferences)
           \<lparr>sent := [login_request (client False), preferences_request (client True)]\<rparr>"
        "JNull"]
  by (simp add: env_defs py_defs api_defs main_defs)

text \<open>
  The same three runs with every request written out: at a match nothing is written; at a
  mismatch, and when the read fails with status 500, the one write carries \<^verbatim>\<open>56789\<close>.
\<close>

lemma startup_requests_written_out:
  \<open>main_startup default_config (boot_world ''56789'' (service 56789))
     = Started (watcher (Some 56789)) (client True)
         ((boot_world ''56789'' (service 56789))
            \<lparr>sent := [POST ''http://localhost:8080/api/v2/auth/login''
                        [(''username'', ''admin''), (''password'', ''adminadmin'')] 10,
                      GET ''http://localhost:8080/api/v2/app/preferences'' 10]\<rparr>)
   \<and> main_startup default_config (boot_world ''56789'' (service 12345))
     = Started (watcher (Some 56789)) (client True)
         ((boot_world ''56789'' (service 12345))
            \<lparr>sent := [POST ''http://localhost:8080/api/v2/auth/login''
                        [(''username'', ''admin''), (''password'', ''adminadmin'')] 10,
                      GET ''http://localhost:8080/api/v2/app/preferences'' 10,
                      POST ''http://localhost:8080/api/v2/app/setPreferences''
                        [(''json'', ''{"listen_port": 56789, "upnp": false, "random_port": false}'')] 10]\<rparr>)
   \<and> main_startup default_config (boot_world ''56789'' no_preferences)
     = Started (watcher (Some 56789)) (client True)
         ((boot_world ''56789'' no_preferences)
            \<lparr>sent := [POST ''http://localhost:8080/api/v2/auth/login''
                        [(''username'', ''admin''), (''password'', ''adminadmin'')] 10,
                      GET ''http://localhost:8080/api/v2/app/preferences'' 10,
                      POST ''http://localhost:8080/api/v2/app/setPreferences''
                        [(''json'', ''{"listen_port": 56789, "upnp": false, "random_port": false}'')] 10]\<rparr>)\<close>
  by (simp add: env_defs py_defs api_defs main_defs json_dumps_def preferences_def str_int_def
      str_nat.simps char_of_def bit_0)

text \<open>
  C4, the code against the claim. The first half holds (see above). The second half
  fails when the preferences cannot be read because \<open>get_preferences\<close> raises: with
  \<^verbatim>\<open>56789\<close> in the port file and a service that accepts the login and answers the read
  with status 200 and a body whose decoding raises \<^verbatim>\<open>ValueError\<close>, the
  \<^verbatim>\<open>except (ValueError, FileNotFoundError)\<close> of \<open>main\<close> swallows the exception, \<open>update_port\<close>
  never runs, no set-port call is made and the last applied port stays empty. With an
  answer that is a JSON array, \<open>main\<close> dies with \<^verbatim>\<open>AttributeError\<close>, again before any
  set-port call.
\<close>

theorem startup_unreadable_preferences_no_push:
  "fst (get_preferences (client True)
         ((boot_world ''56789'' legacy_page)\<lparr>sent := [login_request (client False)]\<rparr>))
     = Inl ValueError
   \<and> main_startup default_config (boot_world ''56789'' legacy_page)
       = Started (watcher None) (client True)
           ((boot_world ''56789'' legacy_page)
              \<lparr>sent := [POST ''http://localhost:8080/api/v2/auth/login''
                          [(''username'', ''admin''), (''password'', ''adminadmin'')] 10,
                        GET ''http://localhost:8080/api/v2/app/preferences'' 10]\<rparr>)
   \<and> set_port_calls (client True)
         [POST ''http://localhost:8080/api/v2/auth/login''
            [(''username'', ''admin''), (''password'', ''adminadmin'')] 10,
          GET ''http://localhost:8080/api/v2/app/preferences'' 10] = []
   \<and> main_startup default_config (boot_world ''56789'' array_answer) = Crashed AttributeError"
  by (simp add: env_defs py_defs api_defs main_defs set_port_calls_def is_set_port_def)

section \<open>When the last applied port changes\<close>

text \<open>
  C3, as stated, fails at startup: with \<^verbatim>\<open>56789\<close> in the file and a service that already
  reports \<^verbatim>\<open>listen_port = 56789\<close>, \<open>main\<close> sets the last applied port from empty to
  \<open>56789\<close> and no set-port call has been made.
\<close>

theorem startup_match_counterexample:
  "last_port (PortFileHandler_init (PORT_FILE default_config)) = None
   \<and> main_startup default_config (boot_world ''56789'' (service 56789))
       = Started (watcher (Some 56789)) (client True)
           ((boot_world ''56789'' (service 56789))
              \<lparr>sent := [login_request (client False), preferences_request (client True)]\<rparr>)
   \<and> set_port_calls (client True) [login_request (client False), preferences_request (client True)] = []"
  by (simp add: env_defs py_defs api_defs main_defs set_port_calls_def is_set_port_def)

text \<open>
  C3, amended. The last applied port is empty when the handler is created. In
  \<open>update_port\<close>, and in every event once the watcher runs, it changes only to a value
  whose set-port request is the last request sent and was answered with status 200. At
  startup it becomes non-empty only that way or by the startup match: the last request
  is the preferences read, answered with status 200 and a \<^verbatim>\<open>listen_port\<close> equal to the
  value, and no set-port call has been made.
\<close>

theorem last_port_changes_only_on_push_or_startup_match:
  "last_port (PortFileHandler_init path) = None
   \<and> (update_port h a w = (h', a', w') \<and> last_port h' \<noteq> last_port h \<longrightarrow>
        (\<exists>port resp. last_port h' = Some port
           \<and> sent w' \<noteq> [] \<and> last (sent w') = set_port_request a' port
           \<and> server w' (sent w') = Inr resp \<and> status_code resp = 200))
   \<and> (step e (h, a, w) = Inr (h', a', w') \<and> last_port h' \<noteq> last_port h \<longrightarrow>
        (\<exists>port resp. last_port h' = Some port
           \<and> sent w' \<noteq> [] \<and> last (sent w') = set_port_request a' port
           \<and> server w' (sent w') = Inr resp \<and> status_code resp = 200))
   \<and> (main_startup cfg w0 = Started h1 a1 w1 \<and> last_port h1 \<noteq> None \<longrightarrow>
        (\<exists>port resp. last_port h1 = Some port \<and> sent w1 \<noteq> []
           \<and> server w1 (sent w1) = Inr resp \<and> status_code resp = 200
           \<and> (last (sent w1) = set_port_request a1 port
               \<or> (last (sent w1) = preferences_request a1
                   \<and> (\<exists>prefs cur. json resp = Inr prefs \<and> py_get prefs ''listen_port'' = Inr cur
                         \<and> py_eq_int cur port)
                   \<and> set_port_calls a1 (sent w1) = set_port_calls a1 (sent w0)))))"
proof (intro conjI impI)
  show "last_port (PortFileHandler_init path) = None" by (simp add: PortFileHandler_init_def)
next
  assume "update_port h a w = (h', a', w') \<and> last_port h' \<noteq> last_port h"
  then show "\<exists>port resp. last_port h' = Some port
           \<and> sent w' \<noteq> [] \<and> last (sent w') = set_port_request a' port
           \<and> server w' (sent w') = Inr resp \<and> status_code resp = 200"
    using update_port_change[of h a w h' a' w'] by blast
next
  assume "step e (h, a, w) = Inr (h', a', w') \<and> last_port h' \<noteq> last_port h"
  then show "\<exists>port resp. last_port h' = Some port
           \<and> sent w' \<noteq> [] \<and> last (sent w') = set_port_request a' port
           \<and> server w' (sent w') = Inr resp \<and> status_code resp = 200"
    using step_change[of e h a w h' a' w'] by blast
next
  assume "main_startup cfg w0 = Started h1 a1 w1 \<and> last_port h1 \<noteq> None"
  then show "\<exists>port resp. last_port h1 = Some port \<and> sent w1 \<noteq> []
           \<and> server w1 (sent w1) = Inr resp \<and> status_code resp = 200
           \<and> (last (sent w1) = set_port_request a1 port
               \<or> (last (sent w1) = preferences_request a1
                   \<and> (\<exists>prefs cur. json resp = Inr prefs \<and> py_get prefs ''listen_port'' = Inr cur
                         \<and> py_eq_int cur port)
                   \<and> set_port_calls a1 (sent w1) = set_port_calls a1 (sent w0)))"
    using main_startup_change[of cfg w0 h1 a1 w1] by blast
qed

theorem last_port_changes_only_on_push_or_startup_match_witness:
  "update_port (watcher (Some 1234)) (client True) (boot_world ''56789'' (service 1))
     = (watcher (Some 56789), client True,
        (boot_world ''56789'' (service 1))\<lparr>sent := [set_port_request (client True) 56789]\<rparr>)
   \<and> last_port (watcher (Some 56789)) \<noteq> last_port (watcher (Some 1234))
   \<and> step (Modified ''/app/port.dat'' False)
        (watcher (Some 1234), client True, boot_world ''56789'' (service 1))
     = Inr (watcher (Some 56789), client True,
        (boot_world ''56789'' (service 1))\<lparr>sent := [set_port_request (client True) 56789]\<rparr>)
   \<and> service 1 [set_port_request (client True) 56789]
     = Inr \<lparr>status_code = 200, text_body = ''Ok.'', json = Inl RequestException\<rparr>
   \<and> main_startup default_config (boot_world ''56789'' (service 12345))
       = Started (watcher (Some 56789)) (client True)
           ((boot_world ''56789'' (service 12345))
              \<lparr>sent := [login_request (client False), preferences_request (client True),
                        set_port_request (client True) 56789]\<rparr>)
   \<and> last_port (watcher (Some 56789)) \<noteq> None"
  using last_port_changes_only_on_push_or_startup_match
    [of "''/app/port.dat''" "watcher (Some 1234)" "client True" "boot_world ''56789'' (service 1)"
        "watcher (Some 56789)" "client True"
        "(boot_world ''56789'' (service 1))\<lparr>sent := [set_port_request (client True) 56789]\<rparr>"
        "Modified ''/app/port.dat'' False" default_config "boot_world ''56789'' (service 12345)"
        "watcher (Some 56789)" "client True"
        "(boot_world ''56789'' (service 12345))
              \<lparr>sent := [login_request (client False), preferences_request (client True),
                        set_port_request (client True) 56789]\<rparr>"]
  by (simp add: env_defs py_defs api_defs main_defs on_modified_def)

end
